theory Spec2Isabelle
  imports Main
begin

section \<open>External-dependency health checks of the DevTools backend\<close>

text \<open>
  A shallow embedding of \<^verbatim>\<open>listExternalDependencyDetails\<close>,
  \<^verbatim>\<open>fetchExternalDependency\<close> and \<^verbatim>\<open>pingExternalDependency\<close> of
  \<^verbatim>\<open>plugins/devtools-backend/src/api/DevToolsBackendApi.ts\<close>.
\<close>

subsection \<open>Data model\<close>

text \<open>
  \<^verbatim>\<open>Endpoint\<close> and \<^verbatim>\<open>ExternalDependency\<close> are the two record types the
  class imports. An \<^verbatim>\<open>ExternalDependency\<close> has the three fields of an
  \<^verbatim>\<open>Endpoint\<close>, then \<^verbatim>\<open>status\<close> and \<^verbatim>\<open>error\<close>, so it is declared as
  the extension of \<^verbatim>\<open>Endpoint\<close> by these two: the selectors \<open>name\<close>,
  \<open>type\<close> and \<open>target\<close> read both records. The \<^verbatim>\<open>type\<close> field is a
  string: the \<^verbatim>\<open>switch\<close> of the orchestrator has a \<^verbatim>\<open>default\<close> branch
  for every value other than \<^verbatim>\<open>'ping'\<close> and \<^verbatim>\<open>'fetch'\<close>. The optional \<^verbatim>\<open>error\<close> field is an
  option: \<open>None\<close> is \<^verbatim>\<open>undefined\<close>.
\<close>

record Endpoint =
  name :: string
  type :: string
  target :: string

datatype Status = Healthy | Unhealthy

record ExternalDependency = Endpoint +
  status :: Status
  error :: "string option"

text \<open>
  The fields of the probe result that \<^verbatim>\<open>pingExternalDependency\<close> reads.
\<close>

record PingResponse =
  alive :: bool
  packetLoss :: string
  "output" :: string

subsection \<open>The environment: network, logger, configuration\<close>

text \<open>
  The two network mechanisms are parameters. Each takes the target and the current
  state of the outside world \<open>'w\<close> and gives the outcome with the next state of the
  world, so the same target may answer differently from one call to the next. A
  promise that rejects is \<open>Inl\<close> of the message of the \<^verbatim>\<open>Error\<close>; a promise that
  resolves is \<open>Inr\<close> of the value: the \<^verbatim>\<open>PingResponse\<close> for
  \<^verbatim>\<open>ping.promise.probe\<close>, the status code of the response for \<^verbatim>\<open>fetch\<close>.
\<close>

record 'w Net =
  probe :: "string \<Rightarrow> 'w \<Rightarrow> (string + PingResponse) \<times> 'w"
  fetch :: "string \<Rightarrow> 'w \<Rightarrow> (string + int) \<times> 'w"

text \<open>
  What a run does besides returning: the calls of the two mechanisms and the lines
  given to the logger, in order. A log line keeps the values its template
  interpolates as arguments.
\<close>

datatype event =
    Info_checking string string
  | Call_probe string
  | Error_ping_failed string string
  | Info_ping_results string string
  | Call_fetch string
  | Info_fetch_status string int
  | Error_fetch_failed string string

record 'w state =
  world :: 'w
  events :: "event list"

definition emit :: "event \<Rightarrow> 'w state \<Rightarrow> 'w state" where
  "emit ev s = s\<lparr>events := events s @ [ev]\<rparr>"

definition call_probe ::
  "'w Net \<Rightarrow> string \<Rightarrow> 'w state \<Rightarrow> (string + PingResponse) \<times> 'w state" where
  "call_probe net t s =
     (case probe net t (world s) of
        (r, w) \<Rightarrow> (r, emit (Call_probe t) (s\<lparr>world := w\<rparr>)))"

definition call_fetch ::
  "'w Net \<Rightarrow> string \<Rightarrow> 'w state \<Rightarrow> (string + int) \<times> 'w state" where
  "call_fetch net t s =
     (case fetch net t (world s) of
        (r, w) \<Rightarrow> (r, emit (Call_fetch t) (s\<lparr>world := w\<rparr>)))"

text \<open>
  Modelled from the spec: the HTTP client is not among the sources. The spec gives
  the message of a transport-level failure (DNS resolution, connection refused,
  timeout, TLS) as human-readable and non-empty; the client rejects such a request
  with a message built from the URL of the request and the reason of the underlying
  error, \<^verbatim>\<open>request to <url> failed, reason: <reason>\<close>.
\<close>

definition FetchError_message :: "string \<Rightarrow> string \<Rightarrow> string" where
  "FetchError_message url reason = ''request to '' @ url @ '' failed, reason: '' @ reason"

subsection \<open>The fetch check\<close>

text \<open>
  \<^verbatim>\<open>let status; let error;\<close> start undefined (\<open>None\<close>). The \<^verbatim>\<open>then\<close>
  callback sets \<^verbatim>\<open>status\<close> and logs the status code; the \<^verbatim>\<open>catch\<close>
  callback logs the failure and sets \<^verbatim>\<open>error\<close> to its message. The record is
  built with \<^verbatim>\<open>status ?? 'Unhealthy'\<close> and \<^verbatim>\<open>error ?? undefined\<close>;
  \<^verbatim>\<open>??\<close> replaces \<^verbatim>\<open>undefined\<close> only, so an empty message stays. The
  methods of the logger are taken to return normally, here and below.
\<close>

definition fetchExternalDependency ::
  "'w Net \<Rightarrow> Endpoint \<Rightarrow> 'w state \<Rightarrow> ExternalDependency \<times> 'w state" where
  "fetchExternalDependency net endpoint s =
     (case call_fetch net (target endpoint) s of
        (res, s1) \<Rightarrow>
          (case (case res of
                   Inr code \<Rightarrow>
                     (Some (if code = 200 then Healthy else Unhealthy), None,
                      emit (Info_fetch_status (name endpoint) code) s1)
                 | Inl message \<Rightarrow>
                     (None, Some message,
                      emit (Error_fetch_failed (name endpoint) message) s1)) of
             (status_var, error_var, s2) \<Rightarrow>
               (\<lparr>name = name endpoint,
                 type = type endpoint,
                 target = target endpoint,
                 status = (case status_var of None \<Rightarrow> Unhealthy | Some v \<Rightarrow> v),
                 error = (case error_var of None \<Rightarrow> None | Some m \<Rightarrow> Some m)\<rparr>,
                s2)))"

subsection \<open>The ping check\<close>

text \<open>
  The probe is awaited with no handler around it: when its promise rejects, the
  rejection leaves \<^verbatim>\<open>pingExternalDependency\<close> (\<open>Inl\<close>), before any log line.
  Otherwise \<^verbatim>\<open>error\<close> is set from \<^verbatim>\<open>packetLoss\<close> and \<^verbatim>\<open>output\<close>, and
  \<^verbatim>\<open>status\<close> from \<^verbatim>\<open>alive\<close>.
\<close>

definition pingExternalDependency ::
  "'w Net \<Rightarrow> Endpoint \<Rightarrow> 'w state \<Rightarrow> (string + ExternalDependency) \<times> 'w state" where
  "pingExternalDependency net endpoint s =
     (case call_probe net (target endpoint) s of
        (Inl message, s1) \<Rightarrow> (Inl message, s1)
      | (Inr pingResult, s1) \<Rightarrow>
          (case (if packetLoss pingResult = ''100.000'' \<or> packetLoss pingResult = ''unknown''
                 then (Some (if output pingResult = ''''
                             then target endpoint @ '' - Unknown''
                             else output pingResult),
                       emit (Error_ping_failed (name endpoint) (output pingResult)) s1)
                 else (None, s1)) of
             (error_var, s2) \<Rightarrow>
               (Inr \<lparr>name = name endpoint,
                     type = type endpoint,
                     target = target endpoint,
                     status = (if alive pingResult then Healthy else Unhealthy),
                     error = (case error_var of None \<Rightarrow> None | Some m \<Rightarrow> Some m)\<rparr>,
                emit (Info_ping_results (name endpoint) (output pingResult)) s2)))"

subsection \<open>The orchestrator\<close>

text \<open>
  The \<^verbatim>\<open>for\<close> loop over the endpoints, with the \<^verbatim>\<open>result\<close> array as
  accumulator. Each round logs the endpoint, then switches on its type; the
  \<^verbatim>\<open>default\<close> branch returns \<^verbatim>\<open>result\<close> at once. A rejection of an awaited
  check leaves the loop and the method.
\<close>

fun check_loop ::
  "'w Net \<Rightarrow> Endpoint list \<Rightarrow> ExternalDependency list \<Rightarrow> 'w state
     \<Rightarrow> (string + ExternalDependency list) \<times> 'w state" where
  "check_loop net [] result s = (Inr result, s)"
| "check_loop net (endpoint # rest) result s =
     (let s1 = emit (Info_checking (name endpoint) (target endpoint)) s in
      if type endpoint = ''ping'' then
        (case pingExternalDependency net endpoint s1 of
           (Inl message, s2) \<Rightarrow> (Inl message, s2)
         | (Inr pingResult, s2) \<Rightarrow> check_loop net rest (result @ [pingResult]) s2)
      else if type endpoint = ''fetch'' then
        (case fetchExternalDependency net endpoint s1 of
           (fetchResult, s2) \<Rightarrow> check_loop net rest (result @ [fetchResult]) s2)
      else (Inr result, s1))"

text \<open>
  \<^verbatim>\<open>config.getOptional\<close> gives the configured list or \<^verbatim>\<open>undefined\<close>
  (\<open>None\<close>); \<^verbatim>\<open>!endpoints\<close> holds for \<^verbatim>\<open>undefined\<close> only, an empty array
  goes to the loop.
\<close>

definition listExternalDependencyDetails ::
  "'w Net \<Rightarrow> Endpoint list option \<Rightarrow> 'w state
     \<Rightarrow> (string + ExternalDependency list) \<times> 'w state" where
  "listExternalDependencyDetails net endpoints s =
     (case endpoints of
        None \<Rightarrow> (Inr [], s)
      | Some eps \<Rightarrow> check_loop net eps [] s)"

subsection \<open>Concrete environments\<close>

text \<open>
  For the concrete runs below: a network whose two mechanisms give the same outcome
  on every call, with a world that has one state, and the state a run starts from,
  before any event.
\<close>

definition const_net :: "(string + PingResponse) \<Rightarrow> (string + int) \<Rightarrow> unit Net" where
  "const_net p f = \<lparr>probe = (\<lambda>t w. (p, w)), fetch = (\<lambda>t w. (f, w))\<rparr>"

definition start :: "unit state" where
  "start = \<lparr>world = (), events = []\<rparr>"

section \<open>Properties\<close>

subsection \<open>One check\<close>

text \<open>
  What each check returns, by the outcome of its network call.
\<close>

lemma ping_resolved:
  assumes "probe net (target endpoint) (world s) = (Inr pingResult, w)"
  shows "fst (pingExternalDependency net endpoint s) =
           Inr \<lparr>name = name endpoint,
                type = type endpoint,
                target = target endpoint,
                status = (if alive pingResult then Healthy else Unhealthy),
                error = (if packetLoss pingResult = ''100.000'' \<or> packetLoss pingResult = ''unknown''
                         then Some (if output pingResult = ''''
                                    then target endpoint @ '' - Unknown''
                                    else output pingResult)
                         else None)\<rparr>"
  using assms by (simp add: pingExternalDependency_def call_probe_def)

lemma ping_rejected:
  assumes "probe net (target endpoint) (world s) = (Inl message, w)"
  shows "pingExternalDependency net endpoint s =
           (Inl message, emit (Call_probe (target endpoint)) (s\<lparr>world := w\<rparr>))"
  using assms by (simp add: pingExternalDependency_def call_probe_def)

lemma ping_ident:
  assumes "pingExternalDependency net endpoint s = (Inr r, s')"
  shows "(name r, type r, target r) =
         (name endpoint, type endpoint, target endpoint)"
  using assms
  by (auto simp add: pingExternalDependency_def call_probe_def
           split: prod.splits sum.splits if_splits)

lemma fetch_ident:
  assumes "fetchExternalDependency net endpoint s = (r, s')"
  shows "(name r, type r, target r) =
         (name endpoint, type endpoint, target endpoint)"
  using assms
  by (auto simp add: fetchExternalDependency_def call_fetch_def
           split: prod.splits sum.splits)

lemma fetch_resolved:
  assumes "fetch net (target endpoint) (world s) = (Inr code, w)"
  shows "fst (fetchExternalDependency net endpoint s) =
           \<lparr>name = name endpoint,
            type = type endpoint,
            target = target endpoint,
            status = (if code = 200 then Healthy else Unhealthy),
            error = None\<rparr>"
  using assms by (simp add: fetchExternalDependency_def call_fetch_def)

lemma fetch_rejected:
  assumes "fetch net (target endpoint) (world s) = (Inl message, w)"
  shows "fst (fetchExternalDependency net endpoint s) =
           \<lparr>name = name endpoint,
            type = type endpoint,
            target = target endpoint,
            status = Unhealthy,
            error = Some message\<rparr>"
  using assms by (simp add: fetchExternalDependency_def call_fetch_def)

lemma fetch_healthy_no_error:
  "status (fst (fetchExternalDependency net endpoint s)) = Healthy \<Longrightarrow>
   error (fst (fetchExternalDependency net endpoint s)) = None"
proof -
  assume h: "status (fst (fetchExternalDependency net endpoint s)) = Healthy"
  obtain res w where f: "fetch net (target endpoint) (world s) = (res, w)"
    by (cases "fetch net (target endpoint) (world s)")
  show ?thesis
  proof (cases res)
    case (Inl m)
    with f h show ?thesis by (simp add: fetch_rejected)
  next
    case (Inr code)
    with f show ?thesis by (simp add: fetch_resolved)
  qed
qed

subsection \<open>The loop\<close>

text \<open>
  When every endpoint has a known type and the loop returns, the records it added
  carry the names, types and targets of the endpoints, in order. Over a prefix of
  known types the loop composes: it runs the prefix, then the rest from the
  accumulator and state the prefix left, unless a check of the prefix rejected.
\<close>

lemma check_loop_ident:
  assumes "\<forall>e \<in> set eps. type e = ''ping'' \<or> type e = ''fetch''"
      and "check_loop net eps acc s = (Inr rs, s')"
  shows "\<exists>new. rs = acc @ new \<and>
           map (\<lambda>r. (name r, type r, target r)) new =
           map (\<lambda>e. (name e, type e, target e)) eps"
  using assms
proof (induction eps arbitrary: acc s)
  case Nil
  then show ?case by simp
next
  case (Cons e eps)
  let ?s1 = "emit (Info_checking (name e) (target e)) s"
  from Cons.prems(1) have valid: "\<forall>e \<in> set eps. type e = ''ping'' \<or> type e = ''fetch''"
    by simp
  show ?case
  proof (cases "type e = ''ping''")
    case True
    obtain out s2 where p: "pingExternalDependency net e ?s1 = (out, s2)"
      by (cases "pingExternalDependency net e ?s1")
    show ?thesis
    proof (cases out)
      case (Inl m)
      with True p Cons.prems(2) show ?thesis by simp
    next
      case (Inr r)
      with True p Cons.prems(2) have "check_loop net eps (acc @ [r]) s2 = (Inr rs, s')"
        by simp
      from Cons.IH [OF valid this] obtain new where
        new: "rs = (acc @ [r]) @ new"
             "map (\<lambda>r. (name r, type r, target r)) new =
              map (\<lambda>e. (name e, type e, target e)) eps"
        by blast
      from p Inr have "(name r, type r, target r) =
         (name e, type e, target e)"
        by (simp add: ping_ident)
      with new have "rs = acc @ (r # new) \<and>
           map (\<lambda>r. (name r, type r, target r)) (r # new) =
           map (\<lambda>e. (name e, type e, target e)) (e # eps)"
        by simp
      then show ?thesis by blast
    qed
  next
    case False
    with Cons.prems(1) have f: "type e = ''fetch''" by simp
    obtain r s2 where p: "fetchExternalDependency net e ?s1 = (r, s2)"
      by (cases "fetchExternalDependency net e ?s1")
    with False f Cons.prems(2) have "check_loop net eps (acc @ [r]) s2 = (Inr rs, s')"
      by simp
    from Cons.IH [OF valid this] obtain new where
      new: "rs = (acc @ [r]) @ new"
           "map (\<lambda>r. (name r, type r, target r)) new =
            map (\<lambda>e. (name e, type e, target e)) eps"
      by blast
    from p have "(name r, type r, target r) =
       (name e, type e, target e)"
      by (simp add: fetch_ident)
    with new have "rs = acc @ (r # new) \<and>
         map (\<lambda>r. (name r, type r, target r)) (r # new) =
         map (\<lambda>e. (name e, type e, target e)) (e # eps)"
      by simp
    then show ?thesis by blast
  qed
qed

lemma check_loop_append:
  assumes "\<forall>e \<in> set pre. type e = ''ping'' \<or> type e = ''fetch''"
  shows "check_loop net (pre @ rest) acc s =
           (case check_loop net pre acc s of
              (Inl m, s') \<Rightarrow> (Inl m, s')
            | (Inr rs, s') \<Rightarrow> check_loop net rest rs s')"
  using assms
  by (induction pre arbitrary: acc s) (auto split: prod.splits sum.splits)

lemma run_order:
  assumes "\<forall>e \<in> set eps. type e = ''ping'' \<or> type e = ''fetch''"
      and "listExternalDependencyDetails net (Some eps) s = (Inr rs, s')"
  shows "length rs = length eps \<and>
         (\<forall>i < length eps. name (rs ! i) = name (eps ! i) \<and>
                            type (rs ! i) = type (eps ! i) \<and>
                            target (rs ! i) = target (eps ! i))"
proof -
  from assms(2) have "check_loop net eps [] s = (Inr rs, s')"
    by (simp add: listExternalDependencyDetails_def)
  from check_loop_ident [OF assms(1) this]
  have m: "map (\<lambda>r. (name r, type r, target r)) rs =
           map (\<lambda>e. (name e, type e, target e)) eps"
    by simp
  then have len: "length rs = length eps"
    by (rule map_eq_imp_length_eq)
  have "\<forall>i < length eps. (name (rs ! i), type (rs ! i), target (rs ! i)) =
                           (name (eps ! i), type (eps ! i), target (eps ! i))"
  proof (intro allI impI)
    fix i assume i: "i < length eps"
    from m have "map (\<lambda>r. (name r, type r, target r)) rs ! i =
                 map (\<lambda>e. (name e, type e, target e)) eps ! i"
      by simp
    with i len show "(name (rs ! i), type (rs ! i), target (rs ! i)) =
                     (name (eps ! i), type (eps ! i), target (eps ! i))"
      by simp
  qed
  with len show ?thesis by simp
qed

section \<open>The claims\<close>

subsection \<open>Unrecognised endpoint type\<close>

text \<open>
  Claim C1. Let \<open>endpoint\<close> be the first endpoint whose type is neither
  \<^verbatim>\<open>'ping'\<close> nor \<^verbatim>\<open>'fetch'\<close>, after the endpoints \<open>pre\<close> and before
  \<open>post\<close>. The orchestrator reaches it when the run over \<open>pre\<close> returns its
  records \<open>rs\<close>. Then the run over the whole list returns exactly \<open>rs\<close>, one
  record for each endpoint of \<open>pre\<close> in order; it does nothing for
  \<open>endpoint\<close> but log the line that precedes the switch, and nothing at all for
  \<open>post\<close>: no call, no log line, no record.
\<close>

theorem unknown_type_truncates:
  assumes "\<forall>e \<in> set pre. type e = ''ping'' \<or> type e = ''fetch''"
      and "type endpoint \<noteq> ''ping''" and "type endpoint \<noteq> ''fetch''"
      and "listExternalDependencyDetails net (Some pre) s = (Inr rs, s')"
  shows "listExternalDependencyDetails net (Some (pre @ endpoint # post)) s =
           (Inr rs, emit (Info_checking (name endpoint) (target endpoint)) s') \<and>
         length rs = length pre \<and>
         (\<forall>i < length pre. name (rs ! i) = name (pre ! i) \<and>
                            type (rs ! i) = type (pre ! i) \<and>
                            target (rs ! i) = target (pre ! i))"
proof -
  from assms(4) have pre: "check_loop net pre [] s = (Inr rs, s')"
    by (simp add: listExternalDependencyDetails_def)
  have "check_loop net (pre @ endpoint # post) [] s = check_loop net (endpoint # post) rs s'"
    using check_loop_append [OF assms(1), of net "endpoint # post" "[]" s] pre by simp
  also have "\<dots> = (Inr rs, emit (Info_checking (name endpoint) (target endpoint)) s')"
    using assms(2,3) by simp
  finally have "listExternalDependencyDetails net (Some (pre @ endpoint # post)) s =
           (Inr rs, emit (Info_checking (name endpoint) (target endpoint)) s')"
    by (simp add: listExternalDependencyDetails_def)
  with run_order [OF assms(1,4)] show ?thesis by simp
qed

theorem unknown_type_truncates_witness:
  "type \<lparr>name = ''A'', type = ''ping'', target = ''a.internal''\<rparr> = ''ping'' \<and>
   type \<lparr>name = ''B'', type = ''dns'', target = ''b.internal''\<rparr> \<noteq> ''ping'' \<and>
   type \<lparr>name = ''B'', type = ''dns'', target = ''b.internal''\<rparr> \<noteq> ''fetch'' \<and>
   listExternalDependencyDetails
     (const_net (Inr \<lparr>alive = True, packetLoss = ''0.000'', output = ''ok''\<rparr>) (Inr 200))
     (Some [\<lparr>name = ''A'', type = ''ping'', target = ''a.internal''\<rparr>,
            \<lparr>name = ''B'', type = ''dns'', target = ''b.internal''\<rparr>,
            \<lparr>name = ''C'', type = ''fetch'', target = ''http://c.internal''\<rparr>])
     start =
   (Inr [\<lparr>name = ''A'', type = ''ping'', target = ''a.internal'',
          status = Healthy, error = None\<rparr>],
    \<lparr>world = (),
     events = [Info_checking ''A'' ''a.internal'', Call_probe ''a.internal'',
               Info_ping_results ''A'' ''ok'', Info_checking ''B'' ''b.internal'']\<rparr>)"
proof -
  let ?net = "const_net (Inr \<lparr>alive = True, packetLoss = ''0.000'', output = ''ok''\<rparr>) (Inr 200)"
  let ?A = "\<lparr>name = ''A'', type = ''ping'', target = ''a.internal''\<rparr>"
  let ?B = "\<lparr>name = ''B'', type = ''dns'', target = ''b.internal''\<rparr>"
  let ?C = "\<lparr>name = ''C'', type = ''fetch'', target = ''http://c.internal''\<rparr>"
  have v: "\<forall>e \<in> set [?A]. type e = ''ping'' \<or> type e = ''fetch''" by simp
  have b1: "type ?B \<noteq> ''ping''" by simp
  have b2: "type ?B \<noteq> ''fetch''" by simp
  have pre: "listExternalDependencyDetails ?net (Some [?A]) start =
    (Inr [\<lparr>name = ''A'', type = ''ping'', target = ''a.internal'',
          status = Healthy, error = None\<rparr>],
     \<lparr>world = (),
      events = [Info_checking ''A'' ''a.internal'', Call_probe ''a.internal'',
               Info_ping_results ''A'' ''ok'']\<rparr>)"
    by (simp add: listExternalDependencyDetails_def pingExternalDependency_def call_probe_def
                  emit_def const_net_def start_def)
  show ?thesis
    using unknown_type_truncates [OF v b1 b2 pre, of "[?C]"] b1 b2
    by (simp add: emit_def)
qed

subsection \<open>Presence of the error field\<close>

text \<open>
  Claim C2, as the code has it. A record of the fetch check has no \<^verbatim>\<open>error\<close> when
  its status is \<^verbatim>\<open>Healthy\<close>. A record of the ping check has an \<^verbatim>\<open>error\<close>
  exactly when the probe's \<^verbatim>\<open>packetLoss\<close> is \<^verbatim>\<open>"100.000"\<close> or
  \<^verbatim>\<open>"unknown"\<close>, and is \<^verbatim>\<open>Healthy\<close> exactly when \<^verbatim>\<open>alive\<close> is true:
  the two are computed apart, so a \<^verbatim>\<open>Healthy\<close> ping record has no
  \<^verbatim>\<open>error\<close> unless the probe reports \<^verbatim>\<open>alive\<close> with such a
  \<^verbatim>\<open>packetLoss\<close>.
\<close>

theorem error_presence_by_check:
  "(status (fst (fetchExternalDependency net endpoint s)) = Healthy \<longrightarrow>
      error (fst (fetchExternalDependency net endpoint s)) = None) \<and>
   (probe net (target endpoint) (world s) = (Inr pingResult, w) \<longrightarrow>
      (\<exists>r. fst (pingExternalDependency net endpoint s) = Inr r \<and>
           (error r \<noteq> None \<longleftrightarrow>
              packetLoss pingResult = ''100.000'' \<or> packetLoss pingResult = ''unknown'') \<and>
           (status r = Healthy \<longleftrightarrow> alive pingResult)))"
  by (simp add: fetch_healthy_no_error ping_resolved)

theorem error_presence_by_check_witness:
  "status (fst (fetchExternalDependency
       (const_net (Inr \<lparr>alive = True, packetLoss = ''0.000'', output = ''ok''\<rparr>) (Inr 200))
       \<lparr>name = ''web'', type = ''fetch'', target = ''web.internal''\<rparr> start)) = Healthy \<and>
   error (fst (fetchExternalDependency
       (const_net (Inr \<lparr>alive = True, packetLoss = ''0.000'', output = ''ok''\<rparr>) (Inr 200))
       \<lparr>name = ''web'', type = ''fetch'', target = ''web.internal''\<rparr> start)) = None \<and>
   probe (const_net (Inr \<lparr>alive = True, packetLoss = ''0.000'', output = ''ok''\<rparr>) (Inr 200))
       ''web.internal'' (world start) =
     (Inr \<lparr>alive = True, packetLoss = ''0.000'', output = ''ok''\<rparr>, ()) \<and>
   (\<exists>r. fst (pingExternalDependency
       (const_net (Inr \<lparr>alive = True, packetLoss = ''0.000'', output = ''ok''\<rparr>) (Inr 200))
       \<lparr>name = ''web'', type = ''fetch'', target = ''web.internal''\<rparr> start) = Inr r \<and>
      error r = None \<and> status r = Healthy)"
proof -
  let ?net = "const_net (Inr \<lparr>alive = True, packetLoss = ''0.000'', output = ''ok''\<rparr>) (Inr 200)"
  let ?e = "\<lparr>name = ''web'', type = ''fetch'', target = ''web.internal''\<rparr>"
  have h: "status (fst (fetchExternalDependency ?net ?e start)) = Healthy"
    by (simp add: fetchExternalDependency_def call_fetch_def const_net_def)
  have p: "probe ?net (target ?e) (world start) =
             (Inr \<lparr>alive = True, packetLoss = ''0.000'', output = ''ok''\<rparr>, ())"
    by (simp add: const_net_def)
  show ?thesis
    using error_presence_by_check [of ?net ?e start
            "\<lparr>alive = True, packetLoss = ''0.000'', output = ''ok''\<rparr>" "()"] h p
    by simp
qed

text \<open>
  The invariant as first stated, for every record of either check, fails on a probe
  that is alive with an undetermined packet loss: the ping record is
  \<^verbatim>\<open>Healthy\<close> and has an \<^verbatim>\<open>error\<close>.
\<close>

theorem healthy_ping_record_with_error_counterexample:
  "fst (pingExternalDependency
     (const_net (Inr \<lparr>alive = True, packetLoss = ''unknown'', output = ''''\<rparr>) (Inr 200))
     \<lparr>name = ''db'', type = ''ping'', target = ''db.internal''\<rparr> start) =
   Inr \<lparr>name = ''db'', type = ''ping'', target = ''db.internal'',
        status = Healthy, error = Some ''db.internal - Unknown''\<rparr>"
  by (simp add: pingExternalDependency_def call_probe_def const_net_def start_def)

subsection \<open>A probe that rejects\<close>

text \<open>
  Claim C3 says that the ping check turns a failure of the probe itself into an
  \<^verbatim>\<open>Unhealthy\<close> record with an \<^verbatim>\<open>error\<close>. The probe is awaited with no
  handler, unlike the \<^verbatim>\<open>fetch\<close> call: when the probe rejects, the ping check
  rejects with the same message and builds no record.
\<close>

theorem ping_probe_rejection_escapes:
  "pingExternalDependency
     (const_net (Inl ''ping.probe: there was an error while executing the ping program'') (Inr 200))
     \<lparr>name = ''db'', type = ''ping'', target = ''db.internal''\<rparr> start =
   (Inl ''ping.probe: there was an error while executing the ping program'',
    \<lparr>world = (), events = [Call_probe ''db.internal'']\<rparr>)"
  by (simp add: pingExternalDependency_def call_probe_def emit_def const_net_def start_def)

subsection \<open>Order and length of the output\<close>

text \<open>
  Claim C4 says that a list of \<open>N\<close> endpoints of known types gives \<open>N\<close>
  records, the \<open>i\<close>-th for the \<open>i\<close>-th endpoint. When the run returns, it
  does (lemma \<open>run_order\<close>). It does not always return: with a fetch endpoint
  followed by a ping endpoint whose probe rejects, the run rejects, and the record
  of the fetch endpoint is lost with it.
\<close>

theorem valid_endpoints_run_rejects:
  "listExternalDependencyDetails
     (const_net (Inl ''ping.probe: there was an error while executing the ping program'') (Inr 200))
     (Some [\<lparr>name = ''web'', type = ''fetch'', target = ''http://web.internal''\<rparr>,
            \<lparr>name = ''db'', type = ''ping'', target = ''db.internal''\<rparr>])
     start =
   (Inl ''ping.probe: there was an error while executing the ping program'',
    \<lparr>world = (),
     events = [Info_checking ''web'' ''http://web.internal'', Call_fetch ''http://web.internal'',
               Info_fetch_status ''web'' 200,
               Info_checking ''db'' ''db.internal'', Call_probe ''db.internal'']\<rparr>)"
  by (simp add: listExternalDependencyDetails_def pingExternalDependency_def call_probe_def
                fetchExternalDependency_def call_fetch_def emit_def const_net_def start_def)

subsection \<open>Fetch: classification by status code\<close>

text \<open>
  Claim C5. When the GET of a fetch endpoint completes with a status code, the
  record is \<^verbatim>\<open>Healthy\<close> without \<^verbatim>\<open>error\<close> if the code is 200, and
  \<^verbatim>\<open>Unhealthy\<close> without \<^verbatim>\<open>error\<close> for every other code.
\<close>

theorem fetch_status_code_classification:
  assumes "fetch net (target endpoint) (world s) = (Inr code, w)"
  shows "(code = 200 \<longrightarrow>
            status (fst (fetchExternalDependency net endpoint s)) = Healthy \<and>
            error (fst (fetchExternalDependency net endpoint s)) = None) \<and>
         (code \<noteq> 200 \<longrightarrow>
            status (fst (fetchExternalDependency net endpoint s)) = Unhealthy \<and>
            error (fst (fetchExternalDependency net endpoint s)) = None)"
  using assms by (simp add: fetch_resolved)

theorem fetch_status_code_classification_witness:
  "fetch (const_net (Inl ''no ping'') (Inr 200)) ''http://ok.example'' (world start) = (Inr 200, ()) \<and>
   status (fst (fetchExternalDependency (const_net (Inl ''no ping'') (Inr 200))
      \<lparr>name = ''svc-a'', type = ''fetch'', target = ''http://ok.example''\<rparr> start)) = Healthy \<and>
   error (fst (fetchExternalDependency (const_net (Inl ''no ping'') (Inr 200))
      \<lparr>name = ''svc-a'', type = ''fetch'', target = ''http://ok.example''\<rparr> start)) = None \<and>
   fetch (const_net (Inl ''no ping'') (Inr 503)) ''http://ok.example'' (world start) = (Inr 503, ()) \<and>
   status (fst (fetchExternalDependency (const_net (Inl ''no ping'') (Inr 503))
      \<lparr>name = ''svc-a'', type = ''fetch'', target = ''http://ok.example''\<rparr> start)) = Unhealthy \<and>
   error (fst (fetchExternalDependency (const_net (Inl ''no ping'') (Inr 503))
      \<lparr>name = ''svc-a'', type = ''fetch'', target = ''http://ok.example''\<rparr> start)) = None"
proof -
  have a: "fetch (const_net (Inl ''no ping'') (Inr 200))
             (target \<lparr>name = ''svc-a'', type = ''fetch'', target = ''http://ok.example''\<rparr>)
             (world start) = (Inr 200, ())"
    by (simp add: const_net_def)
  have b: "fetch (const_net (Inl ''no ping'') (Inr 503))
             (target \<lparr>name = ''svc-a'', type = ''fetch'', target = ''http://ok.example''\<rparr>)
             (world start) = (Inr 503, ())"
    by (simp add: const_net_def)
  show ?thesis
    using fetch_status_code_classification [OF a] fetch_status_code_classification [OF b] a b
    by simp
qed

subsection \<open>Ping: the error field\<close>

text \<open>
  Claim C6. When the probe of a ping endpoint reports a \<^verbatim>\<open>packetLoss\<close> of
  \<^verbatim>\<open>"100.000"\<close> or \<^verbatim>\<open>"unknown"\<close>, the \<^verbatim>\<open>error\<close> of the record is the
  target followed by \<^verbatim>\<open>" - Unknown"\<close> if the \<^verbatim>\<open>output\<close> is empty, and the
  \<^verbatim>\<open>output\<close> otherwise, whatever \<^verbatim>\<open>alive\<close> is; for every other
  \<^verbatim>\<open>packetLoss\<close> there is no \<^verbatim>\<open>error\<close>.
\<close>

theorem ping_error_assignment:
  assumes "probe net (target endpoint) (world s) = (Inr pingResult, w)"
  shows "\<exists>r. fst (pingExternalDependency net endpoint s) = Inr r \<and>
             error r =
               (if packetLoss pingResult = ''100.000'' \<or> packetLoss pingResult = ''unknown''
                then (if output pingResult = ''''
                      then Some (target endpoint @ '' - Unknown'')
                      else Some (output pingResult))
                else None)"
  using assms by (simp add: ping_resolved)

theorem ping_error_assignment_witness:
  "probe (const_net (Inr \<lparr>alive = True, packetLoss = ''100.000'', output = ''''\<rparr>) (Inr 200))
       ''db.internal'' (world start) =
     (Inr \<lparr>alive = True, packetLoss = ''100.000'', output = ''''\<rparr>, ()) \<and>
   (\<exists>r. fst (pingExternalDependency
       (const_net (Inr \<lparr>alive = True, packetLoss = ''100.000'', output = ''''\<rparr>) (Inr 200))
       \<lparr>name = ''db'', type = ''ping'', target = ''db.internal''\<rparr> start) = Inr r \<and>
      error r = Some ''db.internal - Unknown'')"
proof -
  let ?net = "const_net (Inr \<lparr>alive = True, packetLoss = ''100.000'', output = ''''\<rparr>) (Inr 200)"
  let ?e = "\<lparr>name = ''db'', type = ''ping'', target = ''db.internal''\<rparr>"
  have p: "probe ?net (target ?e) (world start) =
             (Inr \<lparr>alive = True, packetLoss = ''100.000'', output = ''''\<rparr>, ())"
    by (simp add: const_net_def)
  show ?thesis
    using ping_error_assignment [OF p] p by simp
qed

subsection \<open>Ping: the status\<close>

text \<open>
  Claim C7. When the probe of a ping endpoint completes, the record is
  \<^verbatim>\<open>Healthy\<close> if and only if \<^verbatim>\<open>alive\<close> is true, and \<^verbatim>\<open>Unhealthy\<close>
  otherwise, whatever \<^verbatim>\<open>packetLoss\<close> and \<^verbatim>\<open>output\<close> are.
\<close>

theorem ping_status_iff_alive:
  assumes "probe net (target endpoint) (world s) = (Inr pingResult, w)"
  shows "\<exists>r. fst (pingExternalDependency net endpoint s) = Inr r \<and>
             (status r = Healthy \<longleftrightarrow> alive pingResult) \<and>
             (status r = Unhealthy \<longleftrightarrow> \<not> alive pingResult)"
  using assms by (simp add: ping_resolved)

theorem ping_status_iff_alive_witness:
  "probe (const_net (Inr \<lparr>alive = True, packetLoss = ''0.000'', output = ''ok''\<rparr>) (Inr 200))
       ''db.internal'' (world start) =
     (Inr \<lparr>alive = True, packetLoss = ''0.000'', output = ''ok''\<rparr>, ()) \<and>
   (\<exists>r. fst (pingExternalDependency
       (const_net (Inr \<lparr>alive = True, packetLoss = ''0.000'', output = ''ok''\<rparr>) (Inr 200))
       \<lparr>name = ''db'', type = ''ping'', target = ''db.internal''\<rparr> start) = Inr r \<and>
      status r = Healthy)"
proof -
  let ?net = "const_net (Inr \<lparr>alive = True, packetLoss = ''0.000'', output = ''ok''\<rparr>) (Inr 200)"
  let ?e = "\<lparr>name = ''db'', type = ''ping'', target = ''db.internal''\<rparr>"
  have p: "probe ?net (target ?e) (world start) =
             (Inr \<lparr>alive = True, packetLoss = ''0.000'', output = ''ok''\<rparr>, ())"
    by (simp add: const_net_def)
  show ?thesis
    using ping_status_iff_alive [OF p] p by auto
qed

subsection \<open>Fetch: transport failure\<close>

text \<open>
  Claim C8. When the GET of a fetch endpoint fails at the transport level, with the
  message the HTTP client gives such a failure, the fetch check catches it and
  returns a record: \<^verbatim>\<open>Unhealthy\<close>, with \<^verbatim>\<open>error\<close> equal to that message,
  and the message is not empty. The result is a record and not a rejection, by the
  type of \<open>fetchExternalDependency\<close>.
\<close>

theorem fetch_transport_failure:
  assumes "fetch net (target endpoint) (world s) = (Inl (FetchError_message url reason), w)"
  shows "status (fst (fetchExternalDependency net endpoint s)) = Unhealthy \<and>
         error (fst (fetchExternalDependency net endpoint s)) =
           Some (FetchError_message url reason) \<and>
         FetchError_message url reason \<noteq> ''''"
  using assms by (simp add: fetch_rejected FetchError_message_def)

theorem fetch_transport_failure_witness:
  "fetch (const_net (Inl ''no ping'')
            (Inl (FetchError_message ''http://localhost/'' ''connect ECONNREFUSED 127.0.0.1:80'')))
     ''http://localhost'' (world start) =
     (Inl ''request to http://localhost/ failed, reason: connect ECONNREFUSED 127.0.0.1:80'', ()) \<and>
   status (fst (fetchExternalDependency
      (const_net (Inl ''no ping'')
         (Inl (FetchError_message ''http://localhost/'' ''connect ECONNREFUSED 127.0.0.1:80'')))
      \<lparr>name = ''svc-a'', type = ''fetch'', target = ''http://localhost''\<rparr> start)) = Unhealthy \<and>
   error (fst (fetchExternalDependency
      (const_net (Inl ''no ping'')
         (Inl (FetchError_message ''http://localhost/'' ''connect ECONNREFUSED 127.0.0.1:80'')))
      \<lparr>name = ''svc-a'', type = ''fetch'', target = ''http://localhost''\<rparr> start)) =
     Some ''request to http://localhost/ failed, reason: connect ECONNREFUSED 127.0.0.1:80''"
proof -
  have a: "fetch (const_net (Inl ''no ping'')
                    (Inl (FetchError_message ''http://localhost/''
                            ''connect ECONNREFUSED 127.0.0.1:80'')))
             (target \<lparr>name = ''svc-a'', type = ''fetch'', target = ''http://localhost''\<rparr>)
             (world start) =
           (Inl (FetchError_message ''http://localhost/'' ''connect ECONNREFUSED 127.0.0.1:80''),
            ())"
    by (simp add: const_net_def)
  show ?thesis
    using fetch_transport_failure [OF a] a by (simp add: FetchError_message_def)
qed

subsection \<open>No endpoints\<close>

text \<open>
  Claim C9. When the configured list is absent or empty, the orchestrator returns
  the empty list and leaves the state as it was: no call of either mechanism, no
  log line, no rejection.
\<close>

theorem no_endpoints_no_checks:
  "listExternalDependencyDetails net None s = (Inr [], s) \<and>
   listExternalDependencyDetails net (Some []) s = (Inr [], s)"
  by (simp add: listExternalDependencyDetails_def)

subsection \<open>Ping: a populated error is not empty\<close>

text \<open>
  Claim C10. Whenever the record of the ping check has an \<^verbatim>\<open>error\<close>, the
  string is not empty: it is the target followed by \<^verbatim>\<open>" - Unknown"\<close> when the
  \<^verbatim>\<open>output\<close> is empty, and the non-empty \<^verbatim>\<open>output\<close> otherwise.
\<close>

theorem ping_error_nonempty:
  assumes "probe net (target endpoint) (world s) = (Inr pingResult, w)"
      and "fst (pingExternalDependency net endpoint s) = Inr r"
      and "error r = Some e"
  shows "e \<noteq> '''' \<and>
         (if output pingResult = ''''
          then e = target endpoint @ '' - Unknown''
          else e = output pingResult)"
  using assms by (auto simp add: ping_resolved split: if_splits)

theorem ping_error_nonempty_witness:
  "probe (const_net (Inr \<lparr>alive = False, packetLoss = ''unknown'', output = ''''\<rparr>) (Inr 200))
       ''db.internal'' (world start) =
     (Inr \<lparr>alive = False, packetLoss = ''unknown'', output = ''''\<rparr>, ()) \<and>
   fst (pingExternalDependency
       (const_net (Inr \<lparr>alive = False, packetLoss = ''unknown'', output = ''''\<rparr>) (Inr 200))
       \<lparr>name = ''db'', type = ''ping'', target = ''db.internal''\<rparr> start) =
     Inr \<lparr>name = ''db'', type = ''ping'', target = ''db.internal'',
          status = Unhealthy, error = Some ''db.internal - Unknown''\<rparr> \<and>
   error \<lparr>name = ''db'', type = ''ping'', target = ''db.internal'',
          status = Unhealthy, error = Some ''db.internal - Unknown''\<rparr> =
     Some ''db.internal - Unknown'' \<and>
   ''db.internal - Unknown'' \<noteq> ''''"
proof -
  let ?net = "const_net (Inr \<lparr>alive = False, packetLoss = ''unknown'', output = ''''\<rparr>) (Inr 200)"
  let ?e = "\<lparr>name = ''db'', type = ''ping'', target = ''db.internal''\<rparr>"
  let ?r = "\<lparr>name = ''db'', type = ''ping'', target = ''db.internal'',
          status = Unhealthy, error = Some ''db.internal - Unknown''\<rparr>"
  have p: "probe ?net (target ?e) (world start) =
             (Inr \<lparr>alive = False, packetLoss = ''unknown'', output = ''''\<rparr>, ())"
    by (simp add: const_net_def)
  have r: "fst (pingExternalDependency ?net ?e start) = Inr ?r"
    by (simp add: pingExternalDependency_def call_probe_def const_net_def)
  have e: "error ?r = Some ''db.internal - Unknown''" by simp
  show ?thesis
    using ping_error_nonempty [OF p r e] p r e by simp
qed

end
